theory Spec2Isabelle
  imports Complex_Main "HOL-Library.Sublist" "HOL-Library.AList"
begin

section \<open>Data model\<close>

text \<open>
  The values that \<^verbatim>\<open>json.loads\<close> returns: \<^verbatim>\<open>None\<close>, \<^verbatim>\<open>bool\<close>, \<^verbatim>\<open>int\<close>,
  \<^verbatim>\<open>float\<close>, \<^verbatim>\<open>str\<close>, \<^verbatim>\<open>list\<close> and \<^verbatim>\<open>dict\<close>. A dict keeps its keys in insertion
  order, so it is an association list. The parser also accepts \<^verbatim>\<open>NaN\<close>, \<^verbatim>\<open>Infinity\<close>
  and \<^verbatim>\<open>-Infinity\<close>; the program only asks a float whether it is zero, so a finite
  float is represented by its exact value. A \<^verbatim>\<open>str\<close> is represented by its UTF-8
  bytes: a run of ASCII characters occurs in the text exactly when its bytes occur in the
  encoded text.
\<close>

datatype pyfloat = Finite rat | PosInf | NegInf | NaN

datatype json =
    JNull
  | JBool bool
  | JInt int
  | JFloat pyfloat
  | JStr string
  | JArr "json list"
  | JObj "(string \<times> json) list"

text \<open>The exceptions that can escape the program's \<^verbatim>\<open>try\<close> block.\<close>

datatype error = AttributeError | TypeError | OSError | UnicodeEncodeError | RecursionError

text \<open>A path is the list of its components below the dataset root.\<close>

type_synonym path = "string list"

text \<open>\<^verbatim>\<open>path.name\<close>: the final component, the empty string when there is none.\<close>

definition path_name :: "path \<Rightarrow> string" where
  "path_name p = (if p = [] then [] else last p)"

text \<open>
  What happens when a path is written: the write goes through; or the file cannot be
  opened for writing (no permission, read-only medium) and stays as it is; or the file is
  opened, and thereby truncated, and the write fails after that many characters (disk
  full, input/output error).
\<close>

datatype write_mode = Writable | OpenFails | WriteFails nat

text \<open>
  The file system below the root: its entries, each once, the matching ones in the order
  in which \<^verbatim>\<open>rglob\<close> yields them; for each path the text that \<^verbatim>\<open>read_text\<close> returns
  (\<open>None\<close> when reading raises: no such file, a directory, no permission, undecodable
  bytes); and for each path what a write does. Distinct paths are distinct files.
\<close>

record fsys =
  entries :: "path list"
  content :: "path \<Rightarrow> string option"
  wmode :: "path \<Rightarrow> write_mode"

definition read_text :: "fsys \<Rightarrow> path \<Rightarrow> string option" where
  "read_text fs p = content fs p"

text \<open>
  \<^verbatim>\<open>write_text\<close> opens the file with mode \<^verbatim>\<open>w\<close> and writes the text: the result is
  \<^verbatim>\<open>OSError\<close> or normal return, and the file system afterwards.
\<close>

definition write_text :: "fsys \<Rightarrow> path \<Rightarrow> string \<Rightarrow> (error + unit) \<times> fsys" where
  "write_text fs p s =
     (case wmode fs p of
        Writable \<Rightarrow> (Inr (), fs\<lparr>content := (content fs)(p \<mapsto> s)\<rparr>)
      | OpenFails \<Rightarrow> (Inl OSError, fs)
      | WriteFails n \<Rightarrow> (Inl OSError, fs\<lparr>content := (content fs)(p \<mapsto> take n s)\<rparr>))"

text \<open>The lines printed, by kind and arguments (the wording is not modelled).\<close>

datatype msg =
    MsgInvalidJSON path
  | MsgOk path json
  | MsgInvalid path json
  | MsgFixed string
  | MsgNoInfer
  | MsgNoneFound
  | MsgChecking nat
  | MsgSummary nat nat
  | MsgAllUpdated

text \<open>
  What the program takes from outside its own source: \<^verbatim>\<open>json.loads\<close> (\<open>None\<close> where it
  raises), \<^verbatim>\<open>json.dumps\<close> with \<^verbatim>\<open>indent=2\<close> (which can raise), \<^verbatim>\<open>str.upper\<close>, and the
  console: for each line, the exception that printing it raises, if any (a console
  encoding without the symbols of the line, a closed pipe).
\<close>

record pyenv =
  json_loads :: "string \<Rightarrow> json option"
  json_dumps :: "json \<Rightarrow> error + string"
  str_upper :: "string \<Rightarrow> string"
  stdout :: "msg \<Rightarrow> error option"

section \<open>Python operations on dynamically typed values\<close>

definition dict_get :: "(string \<times> json) list \<Rightarrow> string \<Rightarrow> json" where
  "dict_get kvs k = (case map_of kvs k of None \<Rightarrow> JNull | Some v \<Rightarrow> v)"

text \<open>\<^verbatim>\<open>meta.get(key)\<close>: only a dict has the method; a missing key gives \<^verbatim>\<open>None\<close>.\<close>

fun py_get :: "json \<Rightarrow> string \<Rightarrow> error + json" where
  "py_get (JObj kvs) k = Inr (dict_get kvs k)"
| "py_get _ k = Inl AttributeError"

text \<open>\<^verbatim>\<open>meta[key] = v\<close> on a dict: replaces the value in place or appends the key.\<close>

fun py_setitem :: "json \<Rightarrow> string \<Rightarrow> json \<Rightarrow> error + json" where
  "py_setitem (JObj kvs) k v = Inr (JObj (AList.update k v kvs))"
| "py_setitem _ k v = Inl TypeError"

text \<open>Truth value of a Python object, as \<^verbatim>\<open>or\<close> and \<^verbatim>\<open>if\<close> test it.\<close>

fun truthy :: "json \<Rightarrow> bool" where
  "truthy JNull = False"
| "truthy (JBool b) = b"
| "truthy (JInt n) = (n \<noteq> 0)"
| "truthy (JFloat f) = (f \<noteq> Finite 0)"
| "truthy (JStr s) = (s \<noteq> [])"
| "truthy (JArr xs) = (xs \<noteq> [])"
| "truthy (JObj kvs) = (kvs \<noteq> [])"

definition py_or :: "json \<Rightarrow> json \<Rightarrow> json" where
  "py_or a b = (if truthy a then a else b)"

text \<open>\<^verbatim>\<open>x.upper()\<close>: only a string has the method.\<close>

fun py_upper :: "pyenv \<Rightarrow> json \<Rightarrow> error + string" where
  "py_upper E (JStr s) = Inr (str_upper E s)"
| "py_upper E _ = Inl AttributeError"

text \<open>
  \<^verbatim>\<open>print(line)\<close> followed by the rest of the computation: when printing raises, the
  exception escapes with the file system as it is at that point; otherwise the line
  precedes what the rest prints.
\<close>

definition py_print ::
  "pyenv \<Rightarrow> fsys \<Rightarrow> msg \<Rightarrow> (error + 'a) \<times> msg list \<times> fsys \<Rightarrow> (error + 'a) \<times> msg list \<times> fsys" where
  "py_print E fs m rest =
     (case stdout E m of
        Some e \<Rightarrow> (Inl e, [], fs)
      | None \<Rightarrow> (case rest of (r, out, fs') \<Rightarrow> (r, m # out, fs')))"

section \<open>The program\<close>

definition VALID_DIRECTIONS :: "string list" where
  "VALID_DIRECTIONS = [''i'', ''i-'', ''j'', ''j-'', ''k'', ''k-'']"

text \<open>
  \<^verbatim>\<open>ped in VALID_DIRECTIONS\<close>: membership in a set hashes the value first, and a list or
  a dict is unhashable.
\<close>

fun in_valid_directions :: "json \<Rightarrow> error + bool" where
  "in_valid_directions (JArr xs) = Inl TypeError"
| "in_valid_directions (JObj kvs) = Inl TypeError"
| "in_valid_directions (JStr s) = Inr (s \<in> set VALID_DIRECTIONS)"
| "in_valid_directions _ = Inr False"

definition infer_direction_from_dir :: "pyenv \<Rightarrow> json \<Rightarrow> path \<Rightarrow> error + string option" where
  "infer_direction_from_dir E meta path =
     (case py_get meta ''dir'' of
        Inl e \<Rightarrow> Inl e
      | Inr d \<Rightarrow>
          (case py_upper E (py_or d (JStr (path_name path))) of
             Inl e \<Rightarrow> Inl e
           | Inr name \<Rightarrow>
               Inr (if sublist ''PA'' name then Some ''j-''
                    else if sublist ''AP'' name then Some ''j''
                    else if sublist ''RL'' name then Some ''i''
                    else if sublist ''LR'' name then Some ''i-''
                    else if sublist ''SI'' name then Some ''k''
                    else if sublist ''IS'' name then Some ''k-''
                    else None)))"

text \<open>
  \<^verbatim>\<open>validate_json\<close>. The result is the exception that escapes or the value returned,
  the lines printed by this call, and the file system afterwards.
\<close>

definition validate_json ::
  "pyenv \<Rightarrow> path \<Rightarrow> bool \<Rightarrow> fsys \<Rightarrow> (error + bool) \<times> msg list \<times> fsys" where
  "validate_json E json_path fix fs =
     (case Option.bind (read_text fs json_path) (json_loads E) of
        None \<Rightarrow> py_print E fs (MsgInvalidJSON json_path) (Inr False, [], fs)
      | Some meta \<Rightarrow>
          (case py_get meta ''PhaseEncodingDirection'' of
             Inl e \<Rightarrow> (Inl e, [], fs)
           | Inr ped \<Rightarrow>
               (case in_valid_directions ped of
                  Inl e \<Rightarrow> (Inl e, [], fs)
                | Inr True \<Rightarrow> py_print E fs (MsgOk json_path ped) (Inr True, [], fs)
                | Inr False \<Rightarrow>
                    py_print E fs (MsgInvalid json_path ped)
                      (if fix then
                         (case infer_direction_from_dir E meta json_path of
                            Inl e \<Rightarrow> (Inl e, [], fs)
                          | Inr None \<Rightarrow> py_print E fs MsgNoInfer (Inr False, [], fs)
                          | Inr (Some guess) \<Rightarrow>
                              if guess \<noteq> [] then
                                (case py_setitem meta ''PhaseEncodingDirection'' (JStr guess) of
                                   Inl e \<Rightarrow> (Inl e, [], fs)
                                 | Inr meta' \<Rightarrow>
                                     (case json_dumps E meta' of
                                        Inl e \<Rightarrow> (Inl e, [], fs)
                                      | Inr s \<Rightarrow>
                                          (case write_text fs json_path s of
                                             (Inl e, fs') \<Rightarrow> (Inl e, [], fs')
                                           | (Inr u, fs') \<Rightarrow>
                                               py_print E fs' (MsgFixed guess)
                                                 (Inr True, [], fs'))))
                              else py_print E fs MsgNoInfer (Inr False, [], fs))
                       else (Inr False, [], fs)))))"

subsection \<open>File discovery\<close>






subsection \<open>The run\<close>

text \<open>
  The \<^verbatim>\<open>for\<close> loop of \<^verbatim>\<open>main\<close> with its counter \<^verbatim>\<open>n_valid\<close>. An exception raised by
  \<^verbatim>\<open>validate_json\<close> is not caught: it ends the loop.
\<close>

fun main_loop ::
  "pyenv \<Rightarrow> bool \<Rightarrow> path list \<Rightarrow> nat \<Rightarrow> fsys \<Rightarrow> (error + nat) \<times> msg list \<times> fsys" where
  "main_loop E fix [] n_valid fs = (Inr n_valid, [], fs)"
| "main_loop E fix (js # rest) n_valid fs =
     (case validate_json E js fix fs of
        (Inl e, out, fs') \<Rightarrow> (Inl e, out, fs')
      | (Inr ok, out, fs') \<Rightarrow>
          (case main_loop E fix rest (if ok then n_valid + 1 else n_valid) fs' of
             (r, out', fs'') \<Rightarrow> (r, out @ out', fs'')))"



section \<open>The specification's vocabulary\<close>

text \<open>
  The five outcomes of the specification. The program returns a truth value and prints;
  an outcome is read off the value returned and the lines printed for the file.
\<close>

datatype outcome = Valid | InvalidUnfixed | InvalidFixed | InvalidUninferable | ParseError


text \<open>
  The ordered rule list of the specification's inference algorithm, and first-match-wins
  evaluation over it.
\<close>

definition direction_rules :: "(string \<times> string) list" where
  "direction_rules =
     [(''PA'', ''j-''), (''AP'', ''j''), (''RL'', ''i''), (''LR'', ''i-''),
      (''SI'', ''k''), (''IS'', ''k-'')]"

fun first_match :: "(string \<times> string) list \<Rightarrow> string \<Rightarrow> string option" where
  "first_match [] name = None"
| "first_match ((code, dir) # rules) name =
     (if sublist code name then Some dir else first_match rules name)"

text \<open>Python's notions of a hashable value and of a string, on parsed JSON.\<close>

fun hashable :: "json \<Rightarrow> bool" where
  "hashable (JArr xs) = False"
| "hashable (JObj kvs) = False"
| "hashable _ = True"

fun is_str :: "json \<Rightarrow> bool" where
  "is_str (JStr s) = True"
| "is_str _ = False"


text \<open>
  The contract of the JSON library at a document: when the document is serialised,
  parsing the text gives the document back.
\<close>

definition roundtrip :: "pyenv \<Rightarrow> json \<Rightarrow> bool" where
  "roundtrip E v = (case json_dumps E v of Inl e \<Rightarrow> True | Inr s \<Rightarrow> json_loads E s = Some v)"

text \<open>The same contract at the one document that a fix of the file at \<open>p\<close> would write.\<close>

definition roundtrips :: "pyenv \<Rightarrow> fsys \<Rightarrow> path \<Rightarrow> bool" where
  "roundtrips E fs p =
     (case Option.bind (read_text fs p) (json_loads E) of
        Some (JObj kvs) \<Rightarrow>
          (case infer_direction_from_dir E (JObj kvs) p of
             Inr (Some g) \<Rightarrow>
               roundtrip E (JObj (AList.update ''PhaseEncodingDirection'' (JStr g) kvs))
           | _ \<Rightarrow> True)
      | _ \<Rightarrow> True)"

text \<open>
  The files on which per-file validation meets no exception of its own: unreadable or
  unparsable ones; and documents that are objects whose target field is hashable and for
  which, when a fix is attempted, the hint token is a string, the fixed document can be
  serialised and the file can be written.
\<close>

definition benign :: "pyenv \<Rightarrow> bool \<Rightarrow> fsys \<Rightarrow> path \<Rightarrow> bool" where
  "benign E fx fs p =
     (case Option.bind (read_text fs p) (json_loads E) of
        None \<Rightarrow> True
      | Some (JObj kvs) \<Rightarrow>
          hashable (dict_get kvs ''PhaseEncodingDirection'')
          \<and> (fx \<and> in_valid_directions (dict_get kvs ''PhaseEncodingDirection'') = Inr False
               \<longrightarrow> is_str (py_or (dict_get kvs ''dir'') (JStr (path_name p)))
                 \<and> (case infer_direction_from_dir E (JObj kvs) p of
                      Inr (Some g) \<Rightarrow>
                        (case json_dumps E
                                (JObj (AList.update ''PhaseEncodingDirection'' (JStr g) kvs)) of
                           Inr s \<Rightarrow> wmode fs p = Writable
                         | Inl e \<Rightarrow> False)
                    | _ \<Rightarrow> True))
      | Some _ \<Rightarrow> False)"

section \<open>Example datasets\<close>

text \<open>
  \<^verbatim>\<open>str.upper\<close> on ASCII text: the 26 lower-case letters change, nothing else does.
  The examples use ASCII text only.
\<close>

definition char_upper :: "char \<Rightarrow> char" where
  "char_upper c =
     (case map_of (zip ''abcdefghijklmnopqrstuvwxyz'' ''ABCDEFGHIJKLMNOPQRSTUVWXYZ'') c of
        None \<Rightarrow> c
      | Some u \<Rightarrow> u)"

definition ascii_upper :: "string \<Rightarrow> string" where
  "ascii_upper s = map char_upper s"

text \<open>
  Sidecar texts and the documents they parse to. \<open>ex_loads\<close> and \<open>ex_dumps\<close> are
  \<^verbatim>\<open>json.loads\<close> and \<^verbatim>\<open>json.dumps(..., indent=2)\<close> restricted to these documents; a
  text outside the table, such as the empty text or the truncated \<open>ex_text_broken\<close>,
  does not parse.
\<close>

definition ex_text_dir_pa :: string where
  \<open>ex_text_dir_pa = ''{"dir": "PA"}''\<close>

definition ex_text_dir_pa_fixed :: string where
  \<open>ex_text_dir_pa_fixed =
     ''{\<newline>  "dir": "PA",\<newline>  "PhaseEncodingDirection": "j-"\<newline>}''\<close>

definition ex_text_empty :: string where
  \<open>ex_text_empty = ''{}''\<close>

definition ex_text_j :: string where
  \<open>ex_text_j = ''{\<newline>  "PhaseEncodingDirection": "j"\<newline>}''\<close>

definition ex_text_x :: string where
  \<open>ex_text_x = ''{"PhaseEncodingDirection": "x"}''\<close>

definition ex_text_list :: string where
  \<open>ex_text_list = ''{"PhaseEncodingDirection": ["j"]}''\<close>

definition ex_text_dir_num :: string where
  \<open>ex_text_dir_num = ''{"dir": 1}''\<close>

definition ex_text_broken :: string where
  \<open>ex_text_broken = ''{"dir": ''\<close>

definition ex_docs :: "(string \<times> json) list" where
  "ex_docs =
     [(ex_text_dir_pa, JObj [(''dir'', JStr ''PA'')]),
      (ex_text_dir_pa_fixed,
        JObj [(''dir'', JStr ''PA''), (''PhaseEncodingDirection'', JStr ''j-'')]),
      (ex_text_empty, JObj []),
      (ex_text_j, JObj [(''PhaseEncodingDirection'', JStr ''j'')]),
      (ex_text_x, JObj [(''PhaseEncodingDirection'', JStr ''x'')]),
      (ex_text_list, JObj [(''PhaseEncodingDirection'', JArr [JStr ''j''])]),
      (ex_text_dir_num, JObj [(''dir'', JInt 1)])]"

definition ex_loads :: "string \<Rightarrow> json option" where
  "ex_loads tx = map_of ex_docs tx"

definition ex_dumps :: "json \<Rightarrow> error + string" where
  "ex_dumps v =
     (if v = JObj [(''dir'', JStr ''PA''), (''PhaseEncodingDirection'', JStr ''j-'')]
      then Inr ex_text_dir_pa_fixed
      else if v = JObj [(''PhaseEncodingDirection'', JStr ''j'')] then Inr ex_text_j
      else Inl RecursionError)"

text \<open>The library with a console that takes every line.\<close>

definition ex_env :: pyenv where
  "ex_env =
     \<lparr>json_loads = ex_loads, json_dumps = ex_dumps, str_upper = ascii_upper,
      stdout = (\<lambda>m. None)\<rparr>"

text \<open>
  A console whose encoding lacks the check mark, the cross and the arrow with which four
  kinds of line begin.
\<close>

definition ascii_console :: "msg \<Rightarrow> error option" where
  "ascii_console m =
     (case m of
        MsgInvalidJSON p \<Rightarrow> Some UnicodeEncodeError
      | MsgOk p v \<Rightarrow> Some UnicodeEncodeError
      | MsgFixed g \<Rightarrow> Some UnicodeEncodeError
      | MsgNoInfer \<Rightarrow> Some UnicodeEncodeError
      | _ \<Rightarrow> None)"

definition ex_env_ascii :: pyenv where
  "ex_env_ascii = ex_env\<lparr>stdout := ascii_console\<rparr>"

definition ex_path_pa :: path where
  "ex_path_pa = [''sub-01'', ''dwi'', ''sub-01_dir-PA_dwi.json'']"

definition ex_path_ap :: path where
  "ex_path_ap = [''sub-02'', ''ses-01'', ''dwi'', ''sub-02_acq-AP_dwi.json'']"

definition ex_path_plain :: path where
  "ex_path_plain = [''sub-03'', ''dwi'', ''sub-03_dwi.json'']"

text \<open>
  Scenarios A, B and C of the specification in one tree, with a file outside any
  \<open>dwi\<close> directory.
\<close>

definition ex_fs :: fsys where
  "ex_fs =
     \<lparr>entries = [[''dataset_description.json''], ex_path_pa, ex_path_ap, ex_path_plain],
      content = [ex_path_pa \<mapsto> ex_text_dir_pa, ex_path_ap \<mapsto> ex_text_empty,
                 ex_path_plain \<mapsto> ex_text_x],
      wmode = (\<lambda>p. Writable)\<rparr>"

text \<open>The same tree with the first sidecar read-only.\<close>

definition ex_fs_readonly :: fsys where
  "ex_fs_readonly = ex_fs\<lparr>wmode := (\<lambda>p. if p = ex_path_pa then OpenFails else Writable)\<rparr>"

text \<open>The same tree where the write to the first sidecar fails right after the open.\<close>

definition ex_fs_cut :: fsys where
  "ex_fs_cut = ex_fs\<lparr>wmode := (\<lambda>p. if p = ex_path_pa then WriteFails 0 else Writable)\<rparr>"

text \<open>A tree whose first sidecar holds a list in the target field.\<close>

definition ex_fs_list :: fsys where
  "ex_fs_list =
     \<lparr>entries = [ex_path_plain, ex_path_ap],
      content = [ex_path_plain \<mapsto> ex_text_list, ex_path_ap \<mapsto> ex_text_empty],
      wmode = (\<lambda>p. Writable)\<rparr>"

text \<open>A tree whose first sidecar holds a number under the hint key.\<close>

definition ex_fs_dir_num :: fsys where
  "ex_fs_dir_num =
     \<lparr>entries = [ex_path_plain, ex_path_ap],
      content = [ex_path_plain \<mapsto> ex_text_dir_num, ex_path_ap \<mapsto> ex_text_empty],
      wmode = (\<lambda>p. Writable)\<rparr>"

text \<open>A tree whose first sidecar is truncated.\<close>

definition ex_fs_broken :: fsys where
  "ex_fs_broken =
     \<lparr>entries = [ex_path_plain, ex_path_ap],
      content = [ex_path_plain \<mapsto> ex_text_broken, ex_path_ap \<mapsto> ex_text_empty],
      wmode = (\<lambda>p. Writable)\<rparr>"

section \<open>Evaluation of the examples\<close>

lemmas ex_defs = ex_fs_def ex_fs_readonly_def ex_fs_cut_def ex_fs_list_def ex_fs_broken_def
  ex_fs_dir_num_def ex_text_dir_num_def
  ex_path_pa_def ex_path_ap_def ex_path_plain_def ex_env_def ex_env_ascii_def
  ascii_console_def ex_loads_def ex_dumps_def ex_docs_def
  ex_text_dir_pa_def ex_text_dir_pa_fixed_def ex_text_empty_def ex_text_j_def ex_text_x_def
  ex_text_list_def ex_text_broken_def ascii_upper_def char_upper_def


section \<open>Properties of inference\<close>

lemma ascii_upper_append: "ascii_upper (xs @ ys) = ascii_upper xs @ ascii_upper ys"
  by (simp add: ascii_upper_def)

lemma sublist_ascii_upper:
  assumes "sublist s tok" and "ascii_upper s = s"
  shows "sublist s (ascii_upper tok)"
proof -
  from assms(1) obtain ps ss where "tok = ps @ s @ ss" by (auto simp: sublist_def)
  then have "ascii_upper tok = ascii_upper ps @ s @ ascii_upper ss"
    by (simp add: ascii_upper_append assms(2))
  then show ?thesis by (auto simp: sublist_def)
qed

lemma ascii_upper_keeps_PA:
  assumes "sublist ''PA'' s"
  shows "sublist ''PA'' (str_upper ex_env s)"
proof -
  have "ascii_upper ''PA'' = ''PA''" by (simp add: ascii_upper_def char_upper_def)
  from sublist_ascii_upper [OF assms this] show ?thesis by (simp add: ex_env_def)
qed

lemma infer_chain:
  assumes "py_get meta ''dir'' = Inr d" and "py_or d (JStr (path_name path)) = JStr tok"
  shows "infer_direction_from_dir E meta path
           = Inr (first_match direction_rules (str_upper E tok))"
  using assms by (simp add: infer_direction_from_dir_def direction_rules_def)

text \<open>
  Claim C1. Inference is a first-match-wins chain over substring containment on the
  upper-cased hint token, in the order PA, AP, RL, LR, SI, IS: where the hint token is a
  string \<open>tok\<close>, the result is that of first-match evaluation of the ordered rule list on
  the upper-cased token, whatever \<^verbatim>\<open>str.upper\<close> makes of the token; a token whose
  upper-cased form contains both \<open>PA\<close> and \<open>AP\<close> gives \<open>j-\<close>, and so does a token that
  contains both as it stands, since upper-casing keeps an occurrence of \<open>PA\<close>; a token
  whose upper-cased form contains none of the six codes gives no result.
\<close>

theorem infer_first_match_chain:
  assumes "py_get meta ''dir'' = Inr d" and "py_or d (JStr (path_name path)) = JStr tok"
  shows "infer_direction_from_dir E meta path
           = Inr (first_match direction_rules (str_upper E tok))
       \<and> (sublist ''PA'' (str_upper E tok) \<and> sublist ''AP'' (str_upper E tok)
            \<longrightarrow> infer_direction_from_dir E meta path = Inr (Some ''j-''))
       \<and> ((\<forall>s. sublist ''PA'' s \<longrightarrow> sublist ''PA'' (str_upper E s))
            \<and> sublist ''PA'' tok \<and> sublist ''AP'' tok
            \<longrightarrow> infer_direction_from_dir E meta path = Inr (Some ''j-''))
       \<and> ((\<forall>c \<in> set (map fst direction_rules). \<not> sublist c (str_upper E tok))
            \<longrightarrow> infer_direction_from_dir E meta path = Inr None)"
proof -
  have chain: "infer_direction_from_dir E meta path
      = Inr (first_match direction_rules (str_upper E tok))"
    using assms by (rule infer_chain)
  have pa: "sublist ''PA'' (str_upper E tok)
      \<Longrightarrow> first_match direction_rules (str_upper E tok) = Some ''j-''"
    by (simp add: direction_rules_def)
  have none: "\<forall>c \<in> set (map fst direction_rules). \<not> sublist c (str_upper E tok)
      \<Longrightarrow> first_match direction_rules (str_upper E tok) = None"
    by (simp add: direction_rules_def)
  show ?thesis
    using chain pa none by auto
qed

theorem infer_first_match_chain_witness:
  "infer_direction_from_dir ex_env (JObj [(''dir'', JStr ''dir-apa'')]) ex_path_plain
     = Inr (Some ''j-'')
   \<and> sublist ''PA'' (str_upper ex_env ''dir-apa'') \<and> sublist ''AP'' (str_upper ex_env ''dir-apa'')
   \<and> infer_direction_from_dir ex_env (JObj [(''dir'', JStr ''xAPxPAx'')]) ex_path_plain
     = Inr (Some ''j-'')
   \<and> infer_direction_from_dir ex_env (JObj [(''dir'', JStr ''ap'')]) ex_path_plain
     = Inr (Some ''j'')
   \<and> infer_direction_from_dir ex_env (JObj [(''dir'', JStr ''rl'')]) ex_path_plain
     = Inr (Some ''i'')
   \<and> infer_direction_from_dir ex_env (JObj [(''dir'', JStr ''lr'')]) ex_path_plain
     = Inr (Some ''i-'')
   \<and> infer_direction_from_dir ex_env (JObj [(''dir'', JStr ''si'')]) ex_path_plain
     = Inr (Some ''k'')
   \<and> infer_direction_from_dir ex_env (JObj [(''dir'', JStr ''is'')]) ex_path_plain
     = Inr (Some ''k-'')
   \<and> infer_direction_from_dir ex_env (JObj []) ex_path_plain = Inr None
   \<and> \<not> list_ex (\<lambda>c. sublist c (str_upper ex_env ''sub-03_dwi.json''))
         (map fst direction_rules)"
proof -
  have get: "\<And>s. py_get (JObj [(''dir'', JStr s)]) ''dir'' = Inr (JStr s)"
    by (simp add: dict_get_def)
  have tok: "\<And>s. s \<noteq> [] \<Longrightarrow> py_or (JStr s) (JStr (path_name ex_path_plain)) = JStr s"
    by (simp add: py_or_def)
  have get0: "py_get (JObj []) ''dir'' = Inr JNull"
    by (simp add: dict_get_def)
  have tok0: "py_or JNull (JStr (path_name ex_path_plain)) = JStr ''sub-03_dwi.json''"
    by (simp add: py_or_def path_name_def ex_path_plain_def)
  have e: "sublist ''PA'' (str_upper ex_env ''dir-apa'')
      \<and> sublist ''AP'' (str_upper ex_env ''dir-apa'')"
    by (simp add: ex_defs sublist_code)
  have raw: "sublist ''PA'' ''xAPxPAx'' \<and> sublist ''AP'' ''xAPxPAx''"
    by (simp add: sublist_code)
  have keeps: "\<forall>s. sublist ''PA'' s \<longrightarrow> sublist ''PA'' (str_upper ex_env s)"
    by (simp add: ascii_upper_keeps_PA)
  have f: "\<forall>c \<in> set (map fst direction_rules).
      \<not> sublist c (str_upper ex_env ''sub-03_dwi.json'')"
    by (simp add: direction_rules_def ex_defs sublist_code)
  have ev: "first_match direction_rules (str_upper ex_env ''ap'') = Some ''j''"
    "first_match direction_rules (str_upper ex_env ''rl'') = Some ''i''"
    "first_match direction_rules (str_upper ex_env ''lr'') = Some ''i-''"
    "first_match direction_rules (str_upper ex_env ''si'') = Some ''k''"
    "first_match direction_rules (str_upper ex_env ''is'') = Some ''k-''"
    by (simp_all add: direction_rules_def ex_defs sublist_code)
  have step: "infer_direction_from_dir ex_env (JObj [(''dir'', JStr s)]) ex_path_plain
      = Inr (first_match direction_rules (str_upper ex_env s))
    \<and> ((\<forall>s. sublist ''PA'' s \<longrightarrow> sublist ''PA'' (str_upper ex_env s))
            \<and> sublist ''PA'' s \<and> sublist ''AP'' s
        \<longrightarrow> infer_direction_from_dir ex_env (JObj [(''dir'', JStr s)]) ex_path_plain
            = Inr (Some ''j-''))" if "s \<noteq> []" for s
    using infer_first_match_chain [OF get tok [OF that], of ex_env] by blast
  have pa: "first_match direction_rules (str_upper ex_env ''dir-apa'') = Some ''j-''"
    by (simp add: direction_rules_def ex_defs sublist_code)
  from step [of "''dir-apa''"] pa
  have g1: "infer_direction_from_dir ex_env (JObj [(''dir'', JStr ''dir-apa'')]) ex_path_plain
      = Inr (Some ''j-'')"
    by simp
  from step [of "''xAPxPAx''"] raw keeps
  have g2: "infer_direction_from_dir ex_env (JObj [(''dir'', JStr ''xAPxPAx'')]) ex_path_plain
      = Inr (Some ''j-'')"
    by blast
  from infer_first_match_chain [OF get0 tok0, of ex_env] f
  have g3: "infer_direction_from_dir ex_env (JObj []) ex_path_plain = Inr None"
    by blast
  have g4: "infer_direction_from_dir ex_env (JObj [(''dir'', JStr ''ap'')]) ex_path_plain
      = Inr (Some ''j'')"
    using step [of "''ap''"] ev by simp
  have g5: "infer_direction_from_dir ex_env (JObj [(''dir'', JStr ''rl'')]) ex_path_plain
      = Inr (Some ''i'')"
    using step [of "''rl''"] ev by simp
  have g6: "infer_direction_from_dir ex_env (JObj [(''dir'', JStr ''lr'')]) ex_path_plain
      = Inr (Some ''i-'')"
    using step [of "''lr''"] ev by simp
  have g7: "infer_direction_from_dir ex_env (JObj [(''dir'', JStr ''si'')]) ex_path_plain
      = Inr (Some ''k'')"
    using step [of "''si''"] ev by simp
  have g8: "infer_direction_from_dir ex_env (JObj [(''dir'', JStr ''is'')]) ex_path_plain
      = Inr (Some ''k-'')"
    using step [of "''is''"] ev by simp
  from f have h: "\<not> list_ex (\<lambda>c. sublist c (str_upper ex_env ''sub-03_dwi.json''))
      (map fst direction_rules)"
    by (simp add: list_ex_iff)
  from g1 g2 g3 g4 g5 g6 g7 g8 e h show ?thesis by blast
qed

section \<open>The branches of per-file validation\<close>

text \<open>
  One equation for each path through \<^verbatim>\<open>validate_json\<close>, and the case distinction that
  covers them all.
\<close>

lemma py_get_Inr: "py_get meta k = Inr v \<Longrightarrow> \<exists>kvs. meta = JObj kvs \<and> v = dict_get kvs k"
  by (cases meta) simp_all

lemma py_get_Inl: "py_get meta k = Inl e \<Longrightarrow> e = AttributeError"
  by (cases meta) simp_all

lemma infer_nonempty: "infer_direction_from_dir E meta p = Inr (Some g) \<Longrightarrow> g \<noteq> []"
  by (auto simp: infer_direction_from_dir_def split: sum.splits if_splits)

lemma vj_parse_error:
  "Option.bind (read_text fs p) (json_loads E) = None
   \<Longrightarrow> validate_json E p fx fs = py_print E fs (MsgInvalidJSON p) (Inr False, [], fs)"
  by (simp add: validate_json_def)

lemma vj_not_object:
  "Option.bind (read_text fs p) (json_loads E) = Some meta
   \<Longrightarrow> py_get meta ''PhaseEncodingDirection'' = Inl e
   \<Longrightarrow> validate_json E p fx fs = (Inl e, [], fs)"
  by (simp add: validate_json_def)

lemma vj_unhashable:
  "Option.bind (read_text fs p) (json_loads E) = Some meta
   \<Longrightarrow> py_get meta ''PhaseEncodingDirection'' = Inr ped
   \<Longrightarrow> in_valid_directions ped = Inl e
   \<Longrightarrow> validate_json E p fx fs = (Inl e, [], fs)"
  by (simp add: validate_json_def)

lemma vj_valid:
  "Option.bind (read_text fs p) (json_loads E) = Some meta
   \<Longrightarrow> py_get meta ''PhaseEncodingDirection'' = Inr ped
   \<Longrightarrow> in_valid_directions ped = Inr True
   \<Longrightarrow> validate_json E p fx fs = py_print E fs (MsgOk p ped) (Inr True, [], fs)"
  by (simp add: validate_json_def)

lemma vj_unfixed:
  "Option.bind (read_text fs p) (json_loads E) = Some meta
   \<Longrightarrow> py_get meta ''PhaseEncodingDirection'' = Inr ped
   \<Longrightarrow> in_valid_directions ped = Inr False
   \<Longrightarrow> validate_json E p False fs = py_print E fs (MsgInvalid p ped) (Inr False, [], fs)"
  by (simp add: validate_json_def)

lemma vj_infer_raises:
  "Option.bind (read_text fs p) (json_loads E) = Some meta
   \<Longrightarrow> py_get meta ''PhaseEncodingDirection'' = Inr ped
   \<Longrightarrow> in_valid_directions ped = Inr False
   \<Longrightarrow> infer_direction_from_dir E meta p = Inl e
   \<Longrightarrow> validate_json E p True fs = py_print E fs (MsgInvalid p ped) (Inl e, [], fs)"
  by (simp add: validate_json_def)

lemma vj_uninferable:
  "Option.bind (read_text fs p) (json_loads E) = Some meta
   \<Longrightarrow> py_get meta ''PhaseEncodingDirection'' = Inr ped
   \<Longrightarrow> in_valid_directions ped = Inr False
   \<Longrightarrow> infer_direction_from_dir E meta p = Inr None
   \<Longrightarrow> validate_json E p True fs
       = py_print E fs (MsgInvalid p ped) (py_print E fs MsgNoInfer (Inr False, [], fs))"
  by (simp add: validate_json_def)

lemma vj_dumps_fails:
  "Option.bind (read_text fs p) (json_loads E) = Some (JObj kvs)
   \<Longrightarrow> py_get (JObj kvs) ''PhaseEncodingDirection'' = Inr ped
   \<Longrightarrow> in_valid_directions ped = Inr False
   \<Longrightarrow> infer_direction_from_dir E (JObj kvs) p = Inr (Some g)
   \<Longrightarrow> json_dumps E (JObj (AList.update ''PhaseEncodingDirection'' (JStr g) kvs)) = Inl e
   \<Longrightarrow> validate_json E p True fs = py_print E fs (MsgInvalid p ped) (Inl e, [], fs)"
  by (frule infer_nonempty) (simp add: validate_json_def)

lemma vj_write:
  "Option.bind (read_text fs p) (json_loads E) = Some (JObj kvs)
   \<Longrightarrow> py_get (JObj kvs) ''PhaseEncodingDirection'' = Inr ped
   \<Longrightarrow> in_valid_directions ped = Inr False
   \<Longrightarrow> infer_direction_from_dir E (JObj kvs) p = Inr (Some g)
   \<Longrightarrow> json_dumps E (JObj (AList.update ''PhaseEncodingDirection'' (JStr g) kvs)) = Inr s
   \<Longrightarrow> validate_json E p True fs
       = py_print E fs (MsgInvalid p ped)
           (case write_text fs p s of
              (Inl e, fs') \<Rightarrow> (Inl e, [], fs')
            | (Inr u, fs') \<Rightarrow> py_print E fs' (MsgFixed g) (Inr True, [], fs'))"
  by (frule infer_nonempty) (simp add: validate_json_def)

lemma validate_json_cases [case_names ParseError NotObject Unhashable Valid Unfixed
    InferRaises Uninferable DumpsFails Write]:
  obtains
    (ParseError) "Option.bind (read_text fs p) (json_loads E) = None"
  | (NotObject) meta e where "Option.bind (read_text fs p) (json_loads E) = Some meta"
      "py_get meta ''PhaseEncodingDirection'' = Inl e"
  | (Unhashable) kvs ped e where
      "Option.bind (read_text fs p) (json_loads E) = Some (JObj kvs)"
      "py_get (JObj kvs) ''PhaseEncodingDirection'' = Inr ped"
      "in_valid_directions ped = Inl e"
  | (Valid) kvs ped where "Option.bind (read_text fs p) (json_loads E) = Some (JObj kvs)"
      "py_get (JObj kvs) ''PhaseEncodingDirection'' = Inr ped"
      "in_valid_directions ped = Inr True"
  | (Unfixed) kvs ped where "Option.bind (read_text fs p) (json_loads E) = Some (JObj kvs)"
      "py_get (JObj kvs) ''PhaseEncodingDirection'' = Inr ped"
      "in_valid_directions ped = Inr False" "\<not> fx"
  | (InferRaises) kvs ped e where
      "Option.bind (read_text fs p) (json_loads E) = Some (JObj kvs)"
      "py_get (JObj kvs) ''PhaseEncodingDirection'' = Inr ped"
      "in_valid_directions ped = Inr False" "fx"
      "infer_direction_from_dir E (JObj kvs) p = Inl e"
  | (Uninferable) kvs ped where
      "Option.bind (read_text fs p) (json_loads E) = Some (JObj kvs)"
      "py_get (JObj kvs) ''PhaseEncodingDirection'' = Inr ped"
      "in_valid_directions ped = Inr False" "fx"
      "infer_direction_from_dir E (JObj kvs) p = Inr None"
  | (DumpsFails) kvs ped g e where
      "Option.bind (read_text fs p) (json_loads E) = Some (JObj kvs)"
      "py_get (JObj kvs) ''PhaseEncodingDirection'' = Inr ped"
      "in_valid_directions ped = Inr False" "fx"
      "infer_direction_from_dir E (JObj kvs) p = Inr (Some g)"
      "json_dumps E (JObj (AList.update ''PhaseEncodingDirection'' (JStr g) kvs)) = Inl e"
  | (Write) kvs ped g s where
      "Option.bind (read_text fs p) (json_loads E) = Some (JObj kvs)"
      "py_get (JObj kvs) ''PhaseEncodingDirection'' = Inr ped"
      "in_valid_directions ped = Inr False" "fx"
      "infer_direction_from_dir E (JObj kvs) p = Inr (Some g)"
      "json_dumps E (JObj (AList.update ''PhaseEncodingDirection'' (JStr g) kvs)) = Inr s"
proof (cases "Option.bind (read_text fs p) (json_loads E)")
  case None
  then show ?thesis by (rule ParseError)
next
  case (Some meta)
  show ?thesis
  proof (cases "py_get meta ''PhaseEncodingDirection''")
    case (Inl e)
    with Some show ?thesis by (rule NotObject)
  next
    case (Inr ped)
    then obtain kvs where m: "meta = JObj kvs" by (auto dest: py_get_Inr)
    note b = Some [unfolded m] and g = Inr [unfolded m]
    show ?thesis
    proof (cases "in_valid_directions ped")
      case (Inl e)
      with b g show ?thesis by (rule Unhashable)
    next
      case v: (Inr ok)
      show ?thesis
      proof (cases ok)
        case True
        with v b g show ?thesis by (auto intro: Valid)
      next
        case False
        with v have v': "in_valid_directions ped = Inr False" by simp
        show ?thesis
        proof (cases "fx")
          case False
          with b g v' show ?thesis by (auto intro: Unfixed)
        next
          case True
          show ?thesis
          proof (cases "infer_direction_from_dir E (JObj kvs) p")
            case (Inl e)
            with b g v' True show ?thesis by (auto intro: InferRaises)
          next
            case i: (Inr guess)
            show ?thesis
            proof (cases guess)
              case None
              with b g v' True i show ?thesis by (auto intro: Uninferable)
            next
              case (Some gs)
              with b g v' True i show ?thesis
                by (cases "json_dumps E
                      (JObj (AList.update ''PhaseEncodingDirection'' (JStr gs) kvs))")
                  (auto intro: DumpsFails Write)
            qed
          qed
        qed
      qed
    qed
  qed
qed

section \<open>Facts about per-file validation\<close>


lemma py_print_ok: "stdout E m = None \<Longrightarrow> py_print E fs m (r, out, fs') = (r, m # out, fs')"
  by (simp add: py_print_def)

lemma py_print_fails: "stdout E m = Some e \<Longrightarrow> py_print E fs m rest = (Inl e, [], fs)"
  by (simp add: py_print_def)


text \<open>What a call that changes the file system, or ends as Invalid-Fixed, has done.\<close>

lemma validate_json_write:
  assumes "validate_json E p fx fs = (r, out, fs')" and "fs' \<noteq> fs"
  shows "\<exists>tx kvs ped g s.
           fx \<and> read_text fs p = Some tx \<and> json_loads E tx = Some (JObj kvs)
         \<and> py_get (JObj kvs) ''PhaseEncodingDirection'' = Inr ped
         \<and> in_valid_directions ped = Inr False
         \<and> infer_direction_from_dir E (JObj kvs) p = Inr (Some g)
         \<and> json_dumps E (JObj (AList.update ''PhaseEncodingDirection'' (JStr g) kvs)) = Inr s
         \<and> stdout E (MsgInvalid p ped) = None
         \<and> ((wmode fs p = Writable \<and> fs' = fs\<lparr>content := (content fs)(p \<mapsto> s)\<rparr>
               \<and> (r = Inr True \<and> out = [MsgInvalid p ped, MsgFixed g]
                   \<or> (\<exists>e. r = Inl e) \<and> out = [MsgInvalid p ped]))
             \<or> (\<exists>n. wmode fs p = WriteFails n
                   \<and> fs' = fs\<lparr>content := (content fs)(p \<mapsto> take n s)\<rparr>
                   \<and> r = Inl OSError \<and> out = [MsgInvalid p ped]))"
proof (cases rule: validate_json_cases [where fs = fs and p = p and E = E and fx = fx])
  case ParseError
  from vj_parse_error [OF this, of fx] assms show ?thesis
    by (auto simp: py_print_def split: option.splits)
next
  case (NotObject meta e)
  from vj_not_object [OF this, of fx] assms show ?thesis by auto
next
  case (Unhashable kvs ped e)
  from vj_unhashable [OF this, of fx] assms show ?thesis by auto
next
  case (Valid kvs ped)
  from vj_valid [OF this, of fx] assms show ?thesis
    by (auto simp: py_print_def split: option.splits)
next
  case (Unfixed kvs ped)
  from vj_unfixed [OF this(1-3)] this(4) assms show ?thesis
    by (auto simp: py_print_def split: option.splits)
next
  case (InferRaises kvs ped e)
  from vj_infer_raises [OF this(1-3) this(5)] this(4) assms show ?thesis
    by (auto simp: py_print_def split: option.splits)
next
  case (Uninferable kvs ped)
  from vj_uninferable [OF this(1-3) this(5)] this(4) assms show ?thesis
    by (auto simp: py_print_def split: option.splits)
next
  case (DumpsFails kvs ped g e)
  from vj_dumps_fails [OF this(1-3) this(5,6)] this(4) assms show ?thesis
    by (auto simp: py_print_def split: option.splits)
next
  case (Write kvs ped g s)
  from Write(1) obtain tx where tx: "read_text fs p = Some tx" "json_loads E tx = Some (JObj kvs)"
    by (auto simp: bind_eq_Some_conv)
  have eq: "validate_json E p fx fs
      = py_print E fs (MsgInvalid p ped)
           (case write_text fs p s of
              (Inl e, fs') \<Rightarrow> (Inl e, [], fs')
            | (Inr u, fs') \<Rightarrow> py_print E fs' (MsgFixed g) (Inr True, [], fs'))"
    using vj_write [OF Write(1-3) Write(5,6)] Write(4) by simp
  have "stdout E (MsgInvalid p ped) = None
      \<and> ((wmode fs p = Writable \<and> fs' = fs\<lparr>content := (content fs)(p \<mapsto> s)\<rparr>
               \<and> (r = Inr True \<and> out = [MsgInvalid p ped, MsgFixed g]
                   \<or> (\<exists>e. r = Inl e) \<and> out = [MsgInvalid p ped]))
             \<or> (\<exists>n. wmode fs p = WriteFails n
                   \<and> fs' = fs\<lparr>content := (content fs)(p \<mapsto> take n s)\<rparr>
                   \<and> r = Inl OSError \<and> out = [MsgInvalid p ped]))"
    using assms eq
    by (cases "wmode fs p"; cases "stdout E (MsgInvalid p ped)"; cases "stdout E (MsgFixed g)")
      (auto simp: py_print_def write_text_def)
  with tx Write show ?thesis by blast
qed

lemma validate_json_frame:
  assumes "validate_json E p fx fs = (r, out, fs')"
  shows "entries fs' = entries fs \<and> wmode fs' = wmode fs
       \<and> (\<forall>q. q \<noteq> p \<longrightarrow> content fs' q = content fs q)"
proof (cases "fs' = fs")
  case False
  from validate_json_write [OF assms False] show ?thesis by auto
qed simp


section \<open>Claims about the rewrite\<close>








section \<open>Claims about failures\<close>

lemma main_loop_Cons_Inl:
  "validate_json E p fx fs = (Inl e, out, fs') \<Longrightarrow> main_loop E fx (p # rest) n fs = (Inl e, out, fs')"
  by simp








section \<open>Claims about exceptions and the exit status\<close>



lemma benign_cong:
  "read_text fs' q = read_text fs q \<Longrightarrow> wmode fs' q = wmode fs q
   \<Longrightarrow> benign E fx fs' q = benign E fx fs q"
  by (simp add: benign_def cong: option.case_cong json.case_cong sum.case_cong)





end
